theory Spec2Isabelle
  imports Main "HOL-Library.Word"
begin

unbundle bit_operations_syntax

section \<open>Values of the program\<close>

text \<open>
  The data-protection core of the dashboard lives in \<^verbatim>\<open>utils.py\<close>. Its functions take
  and return Python \<^verbatim>\<open>str\<close> values or \<^verbatim>\<open>None\<close>, and \<^verbatim>\<open>not x\<close> holds of \<^verbatim>\<open>None\<close> and of
  \<^verbatim>\<open>""\<close>. The text fields of a patient record are modelled as \<^typ>\<open>string\<close>, one
  \<^typ>\<open>char\<close> per code point, which covers the strings whose code points lie below 256; on
  these \<^verbatim>\<open>len\<close>, indexing, \<^verbatim>\<open>split\<close>, \<^verbatim>\<open>strip\<close> and the regular expression class \<^verbatim>\<open>\D\<close>
  behave as written here. The strings that pass through the cipher and the password
  hasher are arbitrary Python strings: lists of code points, see \<open>unicode\<close> below.
  Exceptions are values: a function that can raise returns \<open>exc + 'a\<close>.
\<close>

datatype exc =
    IndexError
  | ValueError
  | UnicodeEncodeError
  | UnicodeDecodeError
  | InvalidToken

text \<open>\<^verbatim>\<open>s.split(sep)\<close> for a one-character separator: the pieces between the separators,
  always at least one piece.\<close>

fun split_on :: "char \<Rightarrow> string \<Rightarrow> string list" where
  "split_on sep [] = [[]]"
| "split_on sep (c # cs) =
     (if c = sep then [] # split_on sep cs
      else (case split_on sep cs of
              [] \<Rightarrow> [[c]]
            | p # ps \<Rightarrow> (c # p) # ps))"

text \<open>The characters below 256 that \<^verbatim>\<open>str.isspace\<close> accepts, and \<^verbatim>\<open>s.strip()\<close>.\<close>

definition is_space :: "char \<Rightarrow> bool" where
  "is_space c = ((of_char c :: nat) \<in> set [9, 10, 11, 12, 13, 28, 29, 30, 31, 32, 133, 160])"

definition strip :: "string \<Rightarrow> string" where
  "strip s = rev (dropWhile is_space (rev (dropWhile is_space s)))"

text \<open>The decimal digits: what \<^verbatim>\<open>\d\<close> matches below 256.\<close>

definition is_digit :: "char \<Rightarrow> bool" where
  "is_digit c = (48 \<le> (of_char c :: nat) \<and> (of_char c :: nat) \<le> 57)"

text \<open>\<^verbatim>\<open>s.upper()\<close> on the letters a to z; the function is applied to hexadecimal digits
  only.\<close>

definition upper_char :: "char \<Rightarrow> char" where
  "upper_char c =
     (if 97 \<le> (of_char c :: nat) \<and> (of_char c :: nat) \<le> 122
      then char_of ((of_char c :: nat) - 32) else c)"

subsection \<open>Bytes and UTF-8\<close>

type_synonym byte = "8 word"
type_synonym bytes = "byte list"

text \<open>\<^verbatim>\<open>s.encode()\<close> on a text field: a code point below 128 is one byte, one from 128 to
  255 two.\<close>

definition encode_char :: "char \<Rightarrow> bytes" where
  "encode_char c =
     (let n = (of_char c :: nat) in
      if n < 128 then [of_nat n]
      else [of_nat (192 + n div 64), of_nat (128 + n mod 64)])"

definition utf8_encode :: "string \<Rightarrow> bytes" where
  "utf8_encode s = concat (map encode_char s)"

text \<open>
  A Python string in general is a list of code points, numbers below 1114112; \<open>str\<close>
  gives the one with the characters of a literal. \<^verbatim>\<open>s.encode()\<close> writes a code point in one
  to four bytes and raises \<^verbatim>\<open>UnicodeEncodeError\<close> on a surrogate (55296 to 57343), which has
  no encoding.
\<close>

type_synonym unicode = "nat list"

definition str :: "string \<Rightarrow> unicode" where
  "str s = map of_char s"

definition encode_code_point :: "nat \<Rightarrow> exc + nat list" where
  "encode_code_point c =
     (if c < 128 then Inr [c]
      else if c < 2048 then Inr [192 + c div 64, 128 + c mod 64]
      else if c < 65536 then
        (if 55296 \<le> c \<and> c \<le> 57343 then Inl UnicodeEncodeError
         else Inr [224 + c div 4096, 128 + c div 64 mod 64, 128 + c mod 64])
      else if c < 1114112 then
        Inr [240 + c div 262144, 128 + c div 4096 mod 64, 128 + c div 64 mod 64,
             128 + c mod 64]
      else Inl UnicodeEncodeError)"

fun encode_code_points :: "unicode \<Rightarrow> exc + nat list" where
  "encode_code_points [] = Inr []"
| "encode_code_points (c # cs) =
     (case encode_code_point c of
        Inl e \<Rightarrow> Inl e
      | Inr bs \<Rightarrow>
          (case encode_code_points cs of
             Inl e \<Rightarrow> Inl e
           | Inr rest \<Rightarrow> Inr (bs @ rest)))"

definition utf8_encode_str :: "unicode \<Rightarrow> exc + bytes" where
  "utf8_encode_str s =
     (case encode_code_points s of Inl e \<Rightarrow> Inl e | Inr bs \<Rightarrow> Inr (map of_nat bs))"

text \<open>
  \<^verbatim>\<open>b.decode()\<close>, strict: sequences of one to four bytes, every byte after the first a
  continuation byte (128 to 191). A sequence that is cut short, that is longer than its
  code point needs, that encodes a surrogate or a number from 1114112 on, and a first byte
  that starts no sequence, raise \<^verbatim>\<open>UnicodeDecodeError\<close>.
\<close>

definition continuation :: "nat \<Rightarrow> bool" where
  "continuation b = (128 \<le> b \<and> b < 192)"

definition decoded :: "nat \<Rightarrow> exc + unicode \<Rightarrow> exc + unicode" where
  "decoded c rest = (case rest of Inl e \<Rightarrow> Inl e | Inr s \<Rightarrow> Inr (c # s))"

fun decode_bytes :: "nat list \<Rightarrow> exc + unicode" where
  "decode_bytes [] = Inr []"
| "decode_bytes (b0 # bs) =
     (if b0 < 128 then decoded b0 (decode_bytes bs)
      else if 194 \<le> b0 \<and> b0 < 224 then
        (case bs of
           b1 # r \<Rightarrow>
             if continuation b1
             then decoded ((b0 - 192) * 64 + (b1 - 128)) (decode_bytes r)
             else Inl UnicodeDecodeError
         | _ \<Rightarrow> Inl UnicodeDecodeError)
      else if 224 \<le> b0 \<and> b0 < 240 then
        (case bs of
           b1 # b2 # r \<Rightarrow>
             (let c = (b0 - 224) * 4096 + (b1 - 128) * 64 + (b2 - 128) in
              if continuation b1 \<and> continuation b2 \<and> 2048 \<le> c \<and>
                 (c < 55296 \<or> 57343 < c)
              then decoded c (decode_bytes r)
              else Inl UnicodeDecodeError)
         | _ \<Rightarrow> Inl UnicodeDecodeError)
      else if 240 \<le> b0 \<and> b0 < 245 then
        (case bs of
           b1 # b2 # b3 # r \<Rightarrow>
             (let c = (b0 - 240) * 262144 + (b1 - 128) * 4096 + (b2 - 128) * 64 + (b3 - 128) in
              if continuation b1 \<and> continuation b2 \<and> continuation b3 \<and>
                 65536 \<le> c \<and> c < 1114112
              then decoded c (decode_bytes r)
              else Inl UnicodeDecodeError)
         | _ \<Rightarrow> Inl UnicodeDecodeError)
      else Inl UnicodeDecodeError)"

definition utf8_decode :: "bytes \<Rightarrow> exc + unicode" where
  "utf8_decode bs = decode_bytes (map unat bs)"


definition ascii :: "bytes \<Rightarrow> bool" where
  "ascii bs = list_all (\<lambda>b. b < 128) bs"

subsection \<open>MD5 (\<^verbatim>\<open>hashlib.md5\<close>)\<close>

text \<open>The digest of RFC 1321 on 32-bit words: padding, little-endian words, 64 steps a
  block.\<close>

definition md5_shifts :: "nat list" where
  "md5_shifts =
     [7, 12, 17, 22, 7, 12, 17, 22, 7, 12, 17, 22, 7, 12, 17, 22,
      5, 9, 14, 20, 5, 9, 14, 20, 5, 9, 14, 20, 5, 9, 14, 20,
      4, 11, 16, 23, 4, 11, 16, 23, 4, 11, 16, 23, 4, 11, 16, 23,
      6, 10, 15, 21, 6, 10, 15, 21, 6, 10, 15, 21, 6, 10, 15, 21]"

definition md5_consts :: "32 word list" where
  "md5_consts =
     [0xd76aa478, 0xe8c7b756, 0x242070db, 0xc1bdceee, 0xf57c0faf, 0x4787c62a, 0xa8304613,
      0xfd469501, 0x698098d8, 0x8b44f7af, 0xffff5bb1, 0x895cd7be, 0x6b901122, 0xfd987193,
      0xa679438e, 0x49b40821, 0xf61e2562, 0xc040b340, 0x265e5a51, 0xe9b6c7aa, 0xd62f105d,
      0x02441453, 0xd8a1e681, 0xe7d3fbc8, 0x21e1cde6, 0xc33707d6, 0xf4d50d87, 0x455a14ed,
      0xa9e3e905, 0xfcefa3f8, 0x676f02d9, 0x8d2a4c8a, 0xfffa3942, 0x8771f681, 0x6d9d6122,
      0xfde5380c, 0xa4beea44, 0x4bdecfa9, 0xf6bb4b60, 0xbebfbc70, 0x289b7ec6, 0xeaa127fa,
      0xd4ef3085, 0x04881d05, 0xd9d4d039, 0xe6db99e5, 0x1fa27cf8, 0xc4ac5665, 0xf4292244,
      0x432aff97, 0xab9423a7, 0xfc93a039, 0x655b59c3, 0x8f0ccc92, 0xffeff47d, 0x85845dd1,
      0x6fa87e4f, 0xfe2ce6e0, 0xa3014314, 0x4e0811a1, 0xf7537e82, 0xbd3af235, 0x2ad7d2bb,
      0xeb86d391]"

type_synonym md5_state = "32 word \<times> 32 word \<times> 32 word \<times> 32 word"

definition md5_init :: md5_state where
  "md5_init = (0x67452301, 0xefcdab89, 0x98badcfe, 0x10325476)"

definition md5_pad :: "bytes \<Rightarrow> bytes" where
  "md5_pad msg =
     msg @ [0x80] @ replicate ((119 - length msg mod 64) mod 64) 0 @
     map (\<lambda>i. ucast (drop_bit (8 * i) (of_nat (8 * length msg) :: 64 word))) [0..<8]"

definition le_word :: "bytes \<Rightarrow> 32 word" where
  "le_word bs = foldr (\<lambda>b w. ucast b OR push_bit 8 w) bs 0"

fun le_words :: "bytes \<Rightarrow> 32 word list" where
  "le_words (b0 # b1 # b2 # b3 # bs) = le_word [b0, b1, b2, b3] # le_words bs"
| "le_words _ = []"

definition md5_step :: "32 word list \<Rightarrow> md5_state \<Rightarrow> nat \<Rightarrow> md5_state" where
  "md5_step m st i =
     (case st of (a, b, c, d) \<Rightarrow>
        (let (f, g) =
               (if i < 16 then ((b AND c) OR (NOT b AND d), i)
                else if i < 32 then ((d AND b) OR (NOT d AND c), (5 * i + 1) mod 16)
                else if i < 48 then (b XOR c XOR d, (3 * i + 5) mod 16)
                else (c XOR (b OR NOT d), (7 * i) mod 16));
             f' = f + a + md5_consts ! i + m ! g
         in (d, b + word_rotl (md5_shifts ! i) f', b, c)))"

definition md5_block :: "md5_state \<Rightarrow> 32 word list \<Rightarrow> md5_state" where
  "md5_block st m =
     (case st of (a0, b0, c0, d0) \<Rightarrow>
        (case foldl (md5_step m) st [0..<64] of (a, b, c, d) \<Rightarrow>
           (a0 + a, b0 + b, c0 + c, d0 + d)))"

fun md5_blocks :: "md5_state \<Rightarrow> 32 word list \<Rightarrow> md5_state" where
  "md5_blocks st [] = st"
| "md5_blocks st ws = md5_blocks (md5_block st (take 16 ws)) (drop 16 ws)"

definition word_bytes :: "32 word \<Rightarrow> bytes" where
  "word_bytes w = map (\<lambda>i. ucast (drop_bit (8 * i) w)) [0..<4]"

definition md5_digest :: "bytes \<Rightarrow> bytes" where
  "md5_digest msg =
     (case md5_blocks md5_init (le_words (md5_pad msg)) of (a, b, c, d) \<Rightarrow>
        word_bytes a @ word_bytes b @ word_bytes c @ word_bytes d)"

definition hex_digit :: "nat \<Rightarrow> char" where
  "hex_digit n = (if n < 10 then char_of (48 + n) else char_of (87 + n))"

definition hex_byte :: "byte \<Rightarrow> string" where
  "hex_byte b = [hex_digit (unat b div 16), hex_digit (unat b mod 16)]"

definition md5_hexdigest :: "bytes \<Rightarrow> string" where
  "md5_hexdigest msg = concat (map hex_byte (md5_digest msg))"

section \<open>Anonymization and masking\<close>

subsection \<open>Formatting an integer as \<^verbatim>\<open>04d\<close>\<close>

text \<open>The format \<^verbatim>\<open>04d\<close> writes an integer in decimal, padded with zeros after the sign to
  a width of at least four characters; a longer number is not cut.\<close>

definition digit_val :: "char \<Rightarrow> nat" where
  "digit_val c = (of_char c :: nat) - 48"

definition digit_char :: "nat \<Rightarrow> char" where
  "digit_char d = char_of (48 + d)"

fun dec_digits :: "nat \<Rightarrow> string" where
  "dec_digits n =
     (if n < 10 then [digit_char n] else dec_digits (n div 10) @ [digit_char (n mod 10)])"

declare dec_digits.simps [simp del]

definition zero_fill :: "nat \<Rightarrow> string \<Rightarrow> string" where
  "zero_fill w s = replicate (w - length s) CHR ''0'' @ s"

definition format_04d :: "int \<Rightarrow> string" where
  "format_04d i =
     (if i < 0 then ''-'' @ zero_fill 3 (dec_digits (nat (- i)))
      else zero_fill 4 (dec_digits (nat i)))"


subsection \<open>The field transforms\<close>

text \<open>
  \<^verbatim>\<open>
  def anonymize_name(name, patient_id=None):
      if not name:
          return None
      if patient_id:
          return f"ANON_{patient_id:04d}"
      else:
          hash_val = hashlib.md5(name.encode()).hexdigest()[:8]
          return f"ANON_{hash_val.upper()}"
  \<close>
  The identifier is an integer or \<^verbatim>\<open>None\<close>; \<^verbatim>\<open>if patient_id\<close> is false for \<^verbatim>\<open>None\<close> and
  for 0.
\<close>

definition id_given :: "int option \<Rightarrow> bool" where
  "id_given patient_id = (case patient_id of None \<Rightarrow> False | Some i \<Rightarrow> i \<noteq> 0)"

definition anonymize_name :: "string option \<Rightarrow> int option \<Rightarrow> string option" where
  "anonymize_name name patient_id =
     (case name of
        None \<Rightarrow> None
      | Some n \<Rightarrow>
          if n = [] then None
          else if id_given patient_id then Some (''ANON_'' @ format_04d (the patient_id))
          else
            (let hash_val = take 8 (md5_hexdigest (utf8_encode n)) in
             Some (''ANON_'' @ map upper_char hash_val)))"

text \<open>
  \<^verbatim>\<open>
  def mask_contact(contact):
      if not contact:
          return None
      digits = re.sub(r'\D', '', contact)
      if len(digits) >= 4:
          last_four = digits[-4:]
          return f"XXX-XXX-{last_four}"
      return "XXX-XXX-XXXX"
  \<close>
\<close>

definition mask_contact :: "string option \<Rightarrow> string option" where
  "mask_contact contact =
     (case contact of
        None \<Rightarrow> None
      | Some c \<Rightarrow>
          if c = [] then None
          else
            (let digits = filter is_digit c in
             if length digits \<ge> 4
             then Some (''XXX-XXX-'' @ drop (length digits - 4) digits)
             else Some ''XXX-XXX-XXXX''))"

text \<open>
  \<^verbatim>\<open>
  def mask_email(email):
      if not email or '@' not in email:
          return None
      parts = email.split('@')
      username = parts[0]
      domain = parts[1]
      if len(username) <= 2:
          masked_username = username[0] + '*'
      else:
          masked_username = username[0] + '*' * (len(username) - 1)
      return masked_username + '@' + domain     (written as an f-string)
  \<close>
  \<^verbatim>\<open>username[0]\<close> raises \<^verbatim>\<open>IndexError\<close> on the empty string, in either branch.
\<close>

definition mask_email :: "string option \<Rightarrow> exc + string option" where
  "mask_email email =
     (case email of
        None \<Rightarrow> Inr None
      | Some e \<Rightarrow>
          if e = [] \<or> CHR ''@'' \<notin> set e then Inr None
          else
            (case split_on CHR ''@'' e of
               username # domain # _ \<Rightarrow>
                 (case username of
                    [] \<Rightarrow> Inl IndexError
                  | u0 # _ \<Rightarrow>
                      (let masked_username =
                             (if length username \<le> 2 then [u0] @ ''*''
                              else [u0] @ replicate (length username - 1) CHR ''*'')
                       in Inr (Some (masked_username @ ''@'' @ domain))))
             | _ \<Rightarrow> Inl IndexError))"

text \<open>
  \<^verbatim>\<open>
  def anonymize_address(address):
      if not address:
          return None
      parts = address.split(',')
      if len(parts) > 1:
          city = parts[-1].strip()
          return f"*****, {city}"
      return "*****"
  \<close>
\<close>

definition anonymize_address :: "string option \<Rightarrow> string option" where
  "anonymize_address address =
     (case address of
        None \<Rightarrow> None
      | Some a \<Rightarrow>
          if a = [] then None
          else
            (let parts = split_on CHR '','' a in
             if length parts > 1 then Some (''*****, '' @ strip (last parts))
             else Some ''*****''))"

subsection \<open>Role-based masking of a record\<close>

text \<open>
  A record is a Python dictionary from field names to nullable strings. The key is absent
  where the map is \<open>None\<close>; \<open>Some None\<close> is a key that holds \<^verbatim>\<open>None\<close>.
  \<^verbatim>\<open>
  def mask_sensitive_data(data_dict, role):
      if role == 'admin':
          return data_dict
      masked = data_dict.copy()
      if role == 'doctor':
          if 'name' in masked:
              masked['name'] = masked.get('anonymized_name', anonymize_name(masked['name']))
          if 'contact' in masked:
              masked['contact'] = mask_contact(masked['contact'])
          if 'email' in masked:
              masked['email'] = mask_email(masked['email'])
      elif role == 'receptionist':
          if 'diagnosis' in masked:
              masked['diagnosis'] = '***RESTRICTED***'
          if 'address' in masked:
              masked['address'] = anonymize_address(masked['address'])
      return masked
  \<close>
  The default of \<^verbatim>\<open>get\<close> is computed before the lookup. An exception of \<^verbatim>\<open>mask_email\<close>
  leaves the function.
\<close>

type_synonym data_dict = "string \<rightharpoonup> string option"

definition mask_sensitive_data :: "data_dict \<Rightarrow> string \<Rightarrow> exc + data_dict" where
  "mask_sensitive_data data_dict role =
     (if role = ''admin'' then Inr data_dict
      else
        (let masked = data_dict in
         if role = ''doctor'' then
           (let m1 = (case masked ''name'' of
                        None \<Rightarrow> masked
                      | Some name \<Rightarrow>
                          (let dflt = anonymize_name name None in
                           masked(''name'' \<mapsto>
                             (case masked ''anonymized_name'' of
                                None \<Rightarrow> dflt
                              | Some a \<Rightarrow> a))));
                m2 = (case m1 ''contact'' of
                        None \<Rightarrow> m1
                      | Some contact \<Rightarrow> m1(''contact'' \<mapsto> mask_contact contact))
            in (case m2 ''email'' of
                  None \<Rightarrow> Inr m2
                | Some email \<Rightarrow>
                    (case mask_email email of
                       Inl e \<Rightarrow> Inl e
                     | Inr email' \<Rightarrow> Inr (m2(''email'' \<mapsto> email')))))
         else if role = ''receptionist'' then
           (let m1 = (case masked ''diagnosis'' of
                        None \<Rightarrow> masked
                      | Some _ \<Rightarrow> masked(''diagnosis'' \<mapsto> Some ''***RESTRICTED***''));
                m2 = (case m1 ''address'' of
                        None \<Rightarrow> m1
                      | Some address \<Rightarrow> m1(''address'' \<mapsto> anonymize_address address))
            in Inr m2)
         else Inr masked))"

section \<open>Retention\<close>

text \<open>
  A naive \<^verbatim>\<open>datetime\<close> is its seven fields; Python orders two of them as the tuples of
  their fields, lexicographically.
\<close>

record datetime =
  year :: nat
  month :: nat
  day :: nat
  hour :: nat
  minute :: nat
  second :: nat
  microsecond :: nat

definition dt_fields :: "datetime \<Rightarrow> nat list" where
  "dt_fields d = [year d, month d, day d, hour d, minute d, second d, microsecond d]"

fun lex_less :: "nat list \<Rightarrow> nat list \<Rightarrow> bool" where
  "lex_less (x # xs) (y # ys) = (x < y \<or> (x = y \<and> lex_less xs ys))"
| "lex_less _ _ = False"

definition dt_less :: "datetime \<Rightarrow> datetime \<Rightarrow> bool" where
  "dt_less a b = lex_less (dt_fields a) (dt_fields b)"

definition dt_le :: "datetime \<Rightarrow> datetime \<Rightarrow> bool" where
  "dt_le a b = (dt_less a b \<or> a = b)"

text \<open>
  \<^verbatim>\<open>datetime.strptime(s, '%Y-%m-%d')\<close>. The format is the regular expression
  \<^verbatim>\<open>(\d\d\d\d)-(1[0-2]|0[1-9]|[1-9])-(3[0-1]|[1-2]\d|0[1-9]|[1-9]| [1-9])\<close>, matched at
  the start of the string; text left over after the match, a year 0 and a day the month
  does not have all raise \<^verbatim>\<open>ValueError\<close>.
\<close>

definition is_leap :: "nat \<Rightarrow> bool" where
  "is_leap y = (y mod 4 = 0 \<and> (y mod 100 \<noteq> 0 \<or> y mod 400 = 0))"

definition days_in_month :: "nat \<Rightarrow> nat \<Rightarrow> nat" where
  "days_in_month y m =
     (if m = 2 then (if is_leap y then 29 else 28)
      else if m \<in> set [4, 6, 9, 11] then 30 else 31)"

fun parse_month :: "string \<Rightarrow> (nat \<times> string) option" where
  "parse_month [] = None"
| "parse_month [c1] = (if c1 \<in> set ''123456789'' then Some (digit_val c1, []) else None)"
| "parse_month (c1 # c2 # cs) =
     (if c1 = CHR ''1'' \<and> c2 \<in> set ''012'' then Some (10 + digit_val c2, cs)
      else if c1 = CHR ''0'' \<and> c2 \<in> set ''123456789'' then Some (digit_val c2, cs)
      else if c1 \<in> set ''123456789'' then Some (digit_val c1, c2 # cs)
      else None)"

fun parse_day :: "string \<Rightarrow> (nat \<times> string) option" where
  "parse_day [] = None"
| "parse_day [c1] = (if c1 \<in> set ''123456789'' then Some (digit_val c1, []) else None)"
| "parse_day (c1 # c2 # cs) =
     (if c1 = CHR ''3'' \<and> c2 \<in> set ''01'' then Some (30 + digit_val c2, cs)
      else if c1 \<in> set ''12'' \<and> is_digit c2 then Some (10 * digit_val c1 + digit_val c2, cs)
      else if c1 = CHR ''0'' \<and> c2 \<in> set ''123456789'' then Some (digit_val c2, cs)
      else if c1 \<in> set ''123456789'' then Some (digit_val c1, c2 # cs)
      else if c1 = CHR '' '' \<and> c2 \<in> set ''123456789'' then Some (digit_val c2, cs)
      else None)"

definition strptime_ymd :: "string \<Rightarrow> exc + datetime" where
  "strptime_ymd s =
     (case s of
        y1 # y2 # y3 # y4 # sep1 # rest \<Rightarrow>
          if list_all is_digit [y1, y2, y3, y4] \<and> sep1 = CHR ''-'' then
            (case parse_month rest of
               Some (m, sep2 # rest') \<Rightarrow>
                 if sep2 = CHR ''-'' then
                   (case parse_day rest' of
                      Some (d, []) \<Rightarrow>
                        (let y = 1000 * digit_val y1 + 100 * digit_val y2
                                 + 10 * digit_val y3 + digit_val y4 in
                         if 1 \<le> y \<and> d \<le> days_in_month y m
                         then Inr \<lparr>year = y, month = m, day = d, hour = 0, minute = 0,
                                   second = 0, microsecond = 0\<rparr>
                         else Inl ValueError)
                    | _ \<Rightarrow> Inl ValueError)
                 else Inl ValueError
             | _ \<Rightarrow> Inl ValueError)
          else Inl ValueError
      | _ \<Rightarrow> Inl ValueError)"

text \<open>
  \<^verbatim>\<open>
  def check_retention_expired(retention_date):
      if not retention_date:
          return False
      if isinstance(retention_date, str):
          retention_date = datetime.strptime(retention_date, '%Y-%m-%d')
      return datetime.now() > retention_date
  \<close>
  The argument is \<^verbatim>\<open>None\<close>, a string or a \<^verbatim>\<open>datetime\<close>; the clock reading
  \<^verbatim>\<open>datetime.now()\<close> is the parameter \<open>now\<close>.
\<close>

datatype retention_date = No_date | Date_string string | Date_time datetime

definition check_retention_expired :: "datetime \<Rightarrow> retention_date \<Rightarrow> exc + bool" where
  "check_retention_expired now retention_date =
     (case retention_date of
        No_date \<Rightarrow> Inr False
      | Date_string s \<Rightarrow>
          if s = [] then Inr False
          else (case strptime_ymd s of
                  Inl e \<Rightarrow> Inl e
                | Inr d \<Rightarrow> Inr (dt_less d now))
      | Date_time d \<Rightarrow> Inr (dt_less d now))"

section \<open>Encryption and password hashing\<close>

text \<open>What the functions print, one event for each \<^verbatim>\<open>print\<close> call.\<close>

datatype console =
    Decryption_error exc
  | Password_bytes bytes
  | Hash_bytes bytes
  | Checkpw_result bool
  | Password_verification_error exc

subsection \<open>\<^verbatim>\<open>EncryptionManager\<close>\<close>

text \<open>
  The cipher is \<^verbatim>\<open>cryptography.fernet.Fernet\<close>, a library outside the repository: the
  model takes its operations as a parameter. \<open>fernet_encrypt\<close> gets the key, the clock
  reading and initialisation vector it draws, and the data; \<open>fernet_decrypt\<close> raises
  \<^verbatim>\<open>InvalidToken\<close> or returns the data; \<open>fernet_key_ok\<close> is the check of the constructor
  \<^verbatim>\<open>Fernet(key)\<close>, which raises \<^verbatim>\<open>ValueError\<close> on a key that is not 32 bytes in url-safe
  base64.
\<close>

record fernet =
  fernet_generate_key :: "bytes \<Rightarrow> bytes"
  fernet_key_ok :: "bytes \<Rightarrow> bool"
  fernet_encrypt :: "bytes \<Rightarrow> nat \<times> bytes \<Rightarrow> bytes \<Rightarrow> bytes"
  fernet_decrypt :: "bytes \<Rightarrow> bytes \<Rightarrow> exc + bytes"

record encryption_manager =
  key :: bytes

datatype key_arg = Key_bytes bytes | Key_str unicode

text \<open>
  \<^verbatim>\<open>
  def __init__(self, key=None):
      if key is None:
          self.key = Fernet.generate_key()
      else:
          self.key = key if isinstance(key, bytes) else key.encode()
      self.cipher = Fernet(self.key)
  \<close>
\<close>

definition new_manager :: "fernet \<Rightarrow> bytes \<Rightarrow> key_arg option \<Rightarrow> exc + encryption_manager" where
  "new_manager F entropy k =
     (case (case k of
              None \<Rightarrow> Inr (fernet_generate_key F entropy)
            | Some (Key_bytes b) \<Rightarrow> Inr b
            | Some (Key_str s) \<Rightarrow> utf8_encode_str s) of
        Inl e \<Rightarrow> Inl e
      | Inr k' \<Rightarrow> if fernet_key_ok F k' then Inr \<lparr>key = k'\<rparr> else Inl ValueError)"

text \<open>
  \<^verbatim>\<open>
  def encrypt(self, plaintext):
      if plaintext is None or plaintext == "":
          return None
      return self.cipher.encrypt(plaintext.encode()).decode()

  def decrypt(self, ciphertext):
      if ciphertext is None or ciphertext == "":
          return None
      try:
          return self.cipher.decrypt(ciphertext.encode()).decode()
      except Exception as e:
          print(f"Decryption error: {e}")
          return None
  \<close>
\<close>

definition encrypt ::
  "fernet \<Rightarrow> encryption_manager \<Rightarrow> nat \<times> bytes \<Rightarrow> unicode option \<Rightarrow> exc + unicode option" where
  "encrypt F self rnd plaintext =
     (case plaintext of
        None \<Rightarrow> Inr None
      | Some p \<Rightarrow>
          if p = [] then Inr None
          else
            (case utf8_encode_str p of
               Inl e \<Rightarrow> Inl e
             | Inr data \<Rightarrow>
                 (case utf8_decode (fernet_encrypt F (key self) rnd data) of
                    Inl e \<Rightarrow> Inl e
                  | Inr c \<Rightarrow> Inr (Some c))))"

text \<open>In \<^verbatim>\<open>decrypt\<close> the encoding, the cipher and the decoding all run inside the
  \<^verbatim>\<open>try\<close>.\<close>

definition decrypt ::
  "fernet \<Rightarrow> encryption_manager \<Rightarrow> unicode option \<Rightarrow> unicode option \<times> console list" where
  "decrypt F self ciphertext =
     (case ciphertext of
        None \<Rightarrow> (None, [])
      | Some c \<Rightarrow>
          if c = [] then (None, [])
          else
            (case utf8_encode_str c of
               Inl e \<Rightarrow> (None, [Decryption_error e])
             | Inr token \<Rightarrow>
                 (case fernet_decrypt F (key self) token of
                    Inl e \<Rightarrow> (None, [Decryption_error e])
                  | Inr data \<Rightarrow>
                      (case utf8_decode data of
                         Inl e \<Rightarrow> (None, [Decryption_error e])
                       | Inr p \<Rightarrow> (Some p, [])))))"

subsection \<open>Passwords\<close>

text \<open>
  \<^verbatim>\<open>bcrypt\<close> is a library outside the repository as well. \<open>gensalt\<close> gets the cost and
  the random bytes it draws; \<open>hashpw\<close> and \<open>checkpw\<close> may raise.
  \<^verbatim>\<open>
  def hash_password(password):
      salt = bcrypt.gensalt(rounds=12)
      hashed = bcrypt.hashpw(password.encode('utf-8'), salt)
      return hashed.decode('utf-8')

  def verify_password(password, hashed_password):
      try:
          if isinstance(password, str):
              password = password.encode('utf-8')
          if isinstance(hashed_password, str):
              hashed_password = hashed_password.encode('utf-8')
          print(f"Password bytes: {password}")
          print(f"Hash bytes: {hashed_password}")
          result = bcrypt.checkpw(password, hashed_password)
          print(f"bcrypt.checkpw result: {result}")
          return result
      except Exception as e:
          print(f"Password verification error: {e}")
          return False
  \<close>
\<close>

record bcrypt =
  gensalt :: "nat \<Rightarrow> bytes \<Rightarrow> bytes"
  hashpw :: "bytes \<Rightarrow> bytes \<Rightarrow> exc + bytes"
  checkpw :: "bytes \<Rightarrow> bytes \<Rightarrow> exc + bool"

definition hash_password :: "bcrypt \<Rightarrow> bytes \<Rightarrow> unicode \<Rightarrow> exc + unicode" where
  "hash_password B entropy password =
     (let salt = gensalt B 12 entropy in
      case utf8_encode_str password of
        Inl e \<Rightarrow> Inl e
      | Inr pw \<Rightarrow>
          (case hashpw B pw salt of
             Inl e \<Rightarrow> Inl e
           | Inr hashed \<Rightarrow> utf8_decode hashed))"

definition verify_password :: "bcrypt \<Rightarrow> unicode \<Rightarrow> unicode \<Rightarrow> bool \<times> console list" where
  "verify_password B password hashed_password =
     (case utf8_encode_str password of
        Inl e \<Rightarrow> (False, [Password_verification_error e])
      | Inr pw \<Rightarrow>
          (case utf8_encode_str hashed_password of
             Inl e \<Rightarrow> (False, [Password_verification_error e])
           | Inr h \<Rightarrow>
               (case checkpw B pw h of
                  Inl e \<Rightarrow>
                    (False, [Password_bytes pw, Hash_bytes h, Password_verification_error e])
                | Inr result \<Rightarrow>
                    (result, [Password_bytes pw, Hash_bytes h, Checkpw_result result]))))"

subsection \<open>Instances of the two libraries for evaluation\<close>

text \<open>
  The statements about \<^verbatim>\<open>EncryptionManager\<close> and the password functions hold for every
  implementation of the two interfaces. To run them on concrete inputs two small
  instances are defined: a cipher that masks the data with a byte of the key and writes the
  result in hexadecimal, and a salted checksum that, as \<^verbatim>\<open>bcrypt\<close> does from version 5 on,
  raises \<^verbatim>\<open>ValueError\<close> on a password of more than 72 bytes. They have the shape of the
  libraries' results (text tokens, a salt in front of the hash) and none of their strength.
\<close>

definition hex_bytes :: "bytes \<Rightarrow> bytes" where
  "hex_bytes bs = utf8_encode (concat (map hex_byte bs))"

definition unhex_digit :: "byte \<Rightarrow> byte option" where
  "unhex_digit b =
     (if 48 \<le> b \<and> b \<le> 57 then Some (b - 48)
      else if 97 \<le> b \<and> b \<le> 102 then Some (b - 87)
      else None)"

fun unhex :: "bytes \<Rightarrow> bytes option" where
  "unhex [] = Some []"
| "unhex [h] = None"
| "unhex (h # l # bs) =
     (case (unhex_digit h, unhex_digit l, unhex bs) of
        (Some a, Some b, Some r) \<Rightarrow> Some ((a * 16 + b) # r)
      | _ \<Rightarrow> None)"

definition key_tag :: "bytes \<Rightarrow> byte" where
  "key_tag k = foldr (+) k 0"

definition sample_fernet :: fernet where
  "sample_fernet =
     \<lparr>fernet_generate_key = (\<lambda>entropy. entropy),
      fernet_key_ok = (\<lambda>k. length k = 44),
      fernet_encrypt = (\<lambda>k rnd data. hex_bytes (key_tag k # map (\<lambda>b. b XOR key_tag k) data)),
      fernet_decrypt = (\<lambda>k token.
         case unhex token of
           Some (t # body) \<Rightarrow>
             if t = key_tag k then Inr (map (\<lambda>b. b XOR key_tag k) body) else Inl InvalidToken
         | _ \<Rightarrow> Inl InvalidToken)\<rparr>"

definition sample_hashpw :: "bytes \<Rightarrow> bytes \<Rightarrow> bytes" where
  "sample_hashpw pw salt = salt @ [36] @ hex_bytes [foldr (+) (salt @ pw) 0]"

definition sample_bcrypt :: bcrypt where
  "sample_bcrypt =
     \<lparr>gensalt = (\<lambda>rounds entropy. hex_bytes entropy),
      hashpw = (\<lambda>pw salt.
         if length pw > 72 then Inl ValueError else Inr (sample_hashpw pw salt)),
      checkpw = (\<lambda>pw hashed.
         if length pw > 72 then Inl ValueError
         else Inr (sample_hashpw pw (takeWhile (\<lambda>b. b \<noteq> 36) hashed) = hashed))\<rparr>"

section \<open>Auxiliary facts\<close>

subsection \<open>UTF-8\<close>















lemma unat_of_nat_byte: "n < 256 \<Longrightarrow> unat (of_nat n :: byte) = n"
proof -
  assume "n < 256"
  moreover have "unat (of_nat n :: byte) = n mod 2 ^ LENGTH(8)" by (rule unat_of_nat)
  ultimately show ?thesis by simp
qed



lemma decode_bytes_ascii: "list_all (\<lambda>n. n < 128) ns \<Longrightarrow> decode_bytes ns = Inr ns"
  by (induction ns) (simp_all add: decoded_def)

lemma encode_code_points_ascii:
  "list_all (\<lambda>n. n < 128) ns \<Longrightarrow> encode_code_points ns = Inr ns"
  by (induction ns) (simp_all add: encode_code_point_def)

text \<open>Bytes below 128 decode to the string of the same numbers, which encodes to them.\<close>

lemma utf8_ascii:
  assumes "ascii bs"
  shows "utf8_decode bs = Inr (map unat bs) \<and> utf8_encode_str (map unat bs) = Inr bs"
proof -
  have "list_all (\<lambda>n. n < 128) (map unat bs)"
    using assms by (induction bs) (simp_all add: ascii_def word_less_nat_alt)
  then have "decode_bytes (map unat bs) = Inr (map unat bs)"
    and "encode_code_points (map unat bs) = Inr (map unat bs)"
    by (simp_all add: decode_bytes_ascii encode_code_points_ascii)
  moreover have "map of_nat (map unat bs) = bs" by (induction bs) simp_all
  ultimately show ?thesis by (simp add: utf8_decode_def utf8_encode_str_def)
qed

text \<open>On a text field the two encoders agree.\<close>

lemma encode_code_point_char:
  "encode_code_point (of_char c) = Inr (map unat (encode_char c))"
proof -
  define n where "n = (of_char c :: nat)"
  have n256: "n < 256" by (simp add: n_def)
  show ?thesis
  proof (cases "n < 128")
    case True
    then show ?thesis
      using n256 by (simp add: encode_code_point_def encode_char_def n_def [symmetric]
          unat_of_nat_byte)
  next
    case False
    have "n div 64 < 4" using n256 by (simp add: div_less_iff_less_mult)
    then have a: "192 + n div 64 < 256" by linarith
    have "n mod 64 < 64" by simp
    then have b: "128 + n mod 64 < 256" by linarith
    have "unat (of_nat (192 + n div 64) :: byte) = 192 + n div 64"
      and "unat (of_nat (128 + n mod 64) :: byte) = 128 + n mod 64"
      using a b by (simp_all only: unat_of_nat_byte)
    with False n256 show ?thesis
      by (simp add: encode_code_point_def encode_char_def n_def [symmetric]
          del: of_nat_add)
  qed
qed

lemma utf8_encode_str_str: "utf8_encode_str (str s) = Inr (utf8_encode s)"
proof -
  have "encode_code_points (map of_char s) = Inr (map unat (utf8_encode s))"
    by (induction s) (simp_all add: utf8_encode_def encode_code_point_char)
  moreover have "map of_nat (map unat (utf8_encode s)) = utf8_encode s"
    by (induction "utf8_encode s" arbitrary: s) (simp_all add: map_idI)
  ultimately show ?thesis by (simp add: utf8_encode_str_def str_def)
qed








lemma hash_password_ascii:
  assumes "utf8_encode_str p = Inr pw"
    and "hashpw B pw (gensalt B 12 entropy) = Inr h" and "ascii h"
  shows "hash_password B entropy p = Inr (map unat h) \<and> utf8_encode_str (map unat h) = Inr h"
  using assms utf8_ascii [OF assms(3)] by (simp add: hash_password_def)










subsection \<open>Decimal numbers and digests\<close>











subsection \<open>Splitting and ordering\<close>

lemma split_on_not_Nil: "split_on sep s \<noteq> []"
  by (induction s) (auto split: list.splits)

lemma split_on_first:
  "sep \<in> set s \<Longrightarrow>
   \<exists>d rest. split_on sep s = takeWhile (\<lambda>c. c \<noteq> sep) s # d # rest"
proof (induction s)
  case Nil
  then show ?case by simp
next
  case (Cons c cs)
  show ?case
  proof (cases "c = sep")
    case True
    obtain d rest where "split_on sep cs = d # rest"
      using split_on_not_Nil [of sep cs] by (cases "split_on sep cs") auto
    with True show ?thesis by simp
  next
    case False
    with Cons.prems have "sep \<in> set cs" by simp
    then obtain d rest where "split_on sep cs = takeWhile (\<lambda>c. c \<noteq> sep) cs # d # rest"
      using Cons.IH by blast
    with False show ?thesis by simp
  qed
qed

text \<open>\<^verbatim>\<open>mask_email\<close> raises exactly on the addresses that begin with \<^verbatim>\<open>@\<close>.\<close>

lemma mask_email_raises_iff:
  "(\<exists>x. mask_email email = Inl x) \<longleftrightarrow> (\<exists>s. email = Some (CHR ''@'' # s))"
proof (cases email)
  case None
  then show ?thesis by (simp add: mask_email_def)
next
  case (Some e)
  show ?thesis
  proof (cases "e = [] \<or> CHR ''@'' \<notin> set e")
    case True
    with Some show ?thesis by (auto simp: mask_email_def)
  next
    case False
    then have at: "CHR ''@'' \<in> set e" and ne: "e \<noteq> []" by auto
    obtain d rest where sp: "split_on CHR ''@'' e = takeWhile (\<lambda>c. c \<noteq> CHR ''@'') e # d # rest"
      using split_on_first [OF at] by blast
    have "takeWhile (\<lambda>c. c \<noteq> CHR ''@'') e = [] \<longleftrightarrow> (\<exists>s. e = CHR ''@'' # s)"
      using ne by (cases e) auto
    with Some False sp show ?thesis
      by (auto simp: mask_email_def Let_def split: list.splits)
  qed
qed

lemma mask_email_returns_iff:
  "(\<exists>m. mask_email email = Inr m) \<longleftrightarrow> \<not> (\<exists>s. email = Some (CHR ''@'' # s))"
proof -
  have "(\<exists>m. mask_email email = Inr m) \<longleftrightarrow> \<not> (\<exists>x. mask_email email = Inl x)"
    by (cases "mask_email email") auto
  then show ?thesis by (simp only: mask_email_raises_iff)
qed

lemma lex_less_irrefl: "\<not> lex_less xs xs"
  by (induction xs) auto

lemma dt_less_irrefl: "\<not> dt_less d d"
  by (simp add: dt_less_def lex_less_irrefl)

text \<open>On a \<^verbatim>\<open>datetime\<close> the check is the strict order.\<close>

lemma check_retention_expired_datetime:
  "check_retention_expired now (Date_time d) = Inr (dt_less d now) \<and>
   (dt_less d now \<longleftrightarrow> dt_le d now \<and> d \<noteq> now)"
  by (auto simp: check_retention_expired_def dt_le_def dt_less_irrefl)

subsection \<open>The doctor's view\<close>

text \<open>
  With role \<^verbatim>\<open>doctor\<close> the function returns a record unless the \<^verbatim>\<open>email\<close> begins with
  \<^verbatim>\<open>@\<close>; the record it returns has \<^verbatim>\<open>name\<close>, \<^verbatim>\<open>contact\<close> and \<^verbatim>\<open>email\<close> masked and every other
  field as it was.
\<close>

lemma doctor_masking:
  "((\<exists>r'. mask_sensitive_data r ''doctor'' = Inr r') \<longleftrightarrow>
      \<not> (\<exists>s. r ''email'' = Some (Some (CHR ''@'' # s)))) \<and>
   (\<forall>r'. mask_sensitive_data r ''doctor'' = Inr r' \<longrightarrow>
      (\<forall>k. k \<notin> {''name'', ''contact'', ''email''} \<longrightarrow> r' k = r k) \<and>
      r' ''diagnosis'' = r ''diagnosis'' \<and>
      r' ''blood_group'' = r ''blood_group'' \<and>
      r' ''name'' =
        (case r ''name'' of
           None \<Rightarrow> None
         | Some n \<Rightarrow>
             Some (case r ''anonymized_name'' of
                     Some a \<Rightarrow> a
                   | None \<Rightarrow> anonymize_name n None)) \<and>
      r' ''contact'' = map_option mask_contact (r ''contact'') \<and>
      (case r ''email'' of
         None \<Rightarrow> r' ''email'' = None
       | Some e \<Rightarrow> \<exists>m. mask_email e = Inr m \<and> r' ''email'' = Some m))"
proof -
  have "(\<exists>r'. mask_sensitive_data r ''doctor'' = Inr r') \<longleftrightarrow>
        (\<forall>e. r ''email'' = Some e \<longrightarrow> (\<exists>m. mask_email e = Inr m))"
    by (auto simp: mask_sensitive_data_def Let_def split: option.splits sum.splits)
  also have "\<dots> \<longleftrightarrow> \<not> (\<exists>s. r ''email'' = Some (Some (CHR ''@'' # s)))"
    by (auto simp: mask_email_returns_iff)
  finally have 1: "(\<exists>r'. mask_sensitive_data r ''doctor'' = Inr r') \<longleftrightarrow>
      \<not> (\<exists>s. r ''email'' = Some (Some (CHR ''@'' # s)))" .
  have 2: "\<forall>r'. mask_sensitive_data r ''doctor'' = Inr r' \<longrightarrow>
      (\<forall>k. k \<notin> {''name'', ''contact'', ''email''} \<longrightarrow> r' k = r k) \<and>
      r' ''diagnosis'' = r ''diagnosis'' \<and>
      r' ''blood_group'' = r ''blood_group'' \<and>
      r' ''name'' =
        (case r ''name'' of
           None \<Rightarrow> None
         | Some n \<Rightarrow>
             Some (case r ''anonymized_name'' of
                     Some a \<Rightarrow> a
                   | None \<Rightarrow> anonymize_name n None)) \<and>
      r' ''contact'' = map_option mask_contact (r ''contact'') \<and>
      (case r ''email'' of
         None \<Rightarrow> r' ''email'' = None
       | Some e \<Rightarrow> \<exists>m. mask_email e = Inr m \<and> r' ''email'' = Some m)"
    by (auto simp: mask_sensitive_data_def Let_def split: option.splits sum.splits)
  from 1 2 show ?thesis by blast
qed

subsection \<open>Evaluation of the sample libraries\<close>

lemmas sample_eval =
  sample_fernet_def sample_bcrypt_def sample_hashpw_def hex_bytes_def key_tag_def
  utf8_encode_def encode_char_def hex_byte_def hex_digit_def unhex_digit_def ascii_def
  encrypt_def decrypt_def hash_password_def verify_password_def char_of_eq_iff
  utf8_encode_str_def encode_code_point_def utf8_decode_def continuation_def decoded_def
  str_def

section \<open>Results\<close>

text \<open>
  C1. For every record, \<^verbatim>\<open>mask_sensitive_data\<close> with role \<^verbatim>\<open>admin\<close> returns the record
  itself, and for every record that has a \<^verbatim>\<open>diagnosis\<close> field, the call with role
  \<^verbatim>\<open>receptionist\<close> returns a record whose \<^verbatim>\<open>diagnosis\<close> is the constant
  \<^verbatim>\<open>***RESTRICTED***\<close>, whatever the diagnosis was.
\<close>

theorem admin_unchanged_receptionist_redacted:
  "mask_sensitive_data r ''admin'' = Inr r \<and>
   (''diagnosis'' \<in> dom r \<longrightarrow>
      (\<exists>r'. mask_sensitive_data r ''receptionist'' = Inr r' \<and>
            r' ''diagnosis'' = Some (Some ''***RESTRICTED***'')))"
  by (auto simp: mask_sensitive_data_def Let_def split: option.splits)

theorem admin_unchanged_receptionist_redacted_witness:
  "mask_sensitive_data [''name'' \<mapsto> Some ''John Doe'', ''diagnosis'' \<mapsto> Some ''Influenza'']
     ''admin'' = Inr [''name'' \<mapsto> Some ''John Doe'', ''diagnosis'' \<mapsto> Some ''Influenza''] \<and>
   ''diagnosis'' \<in> dom [''name'' \<mapsto> Some ''John Doe'', ''diagnosis'' \<mapsto> Some ''Influenza''] \<and>
   (\<exists>r'. mask_sensitive_data
           [''name'' \<mapsto> Some ''John Doe'', ''diagnosis'' \<mapsto> Some ''Influenza'']
           ''receptionist'' = Inr r' \<and>
         r' ''diagnosis'' = Some (Some ''***RESTRICTED***''))"
  using admin_unchanged_receptionist_redacted
    [of "[''name'' \<mapsto> Some ''John Doe'', ''diagnosis'' \<mapsto> Some ''Influenza'']"]
  by simp

text \<open>
  C2. A deadline exactly equal to the current time is to count as expired, as it does in
  the dashboard's own retention queries (\<^verbatim>\<open>data_retention_date <= CURRENT_DATE\<close> is
  \<^verbatim>\<open>EXPIRED\<close>). \<^verbatim>\<open>check_retention_expired\<close> compares \<^verbatim>\<open>datetime.now() > retention_date\<close>
  instead: at a deadline equal to the clock reading, which is \<open>\<le>\<close> it, the check answers
  \<^verbatim>\<open>False\<close>.
\<close>

theorem deadline_equal_now_not_expired:
  "dt_le \<lparr>year = 2025, month = 6, day = 1, hour = 12, minute = 0, second = 0, microsecond = 0\<rparr>
         \<lparr>year = 2025, month = 6, day = 1, hour = 12, minute = 0, second = 0, microsecond = 0\<rparr> \<and>
   check_retention_expired
     \<lparr>year = 2025, month = 6, day = 1, hour = 12, minute = 0, second = 0, microsecond = 0\<rparr>
     (Date_time \<lparr>year = 2025, month = 6, day = 1, hour = 12, minute = 0, second = 0,
                  microsecond = 0\<rparr>) = Inr False"
  by (simp add: check_retention_expired_def dt_le_def dt_less_def dt_fields_def)

text \<open>
  C3. The spec lets no core function raise on malformed input. \<^verbatim>\<open>mask_email\<close> returns
  \<^verbatim>\<open>None\<close> for an empty address and for one without \<^verbatim>\<open>@\<close>, but for an address whose
  local part is empty, such as \<^verbatim>\<open>"@domain.com"\<close>, it reads \<^verbatim>\<open>username[0]\<close> of the empty
  string and raises \<^verbatim>\<open>IndexError\<close>. \<^verbatim>\<open>check_retention_expired\<close> parses a string argument
  with \<^verbatim>\<open>strptime\<close> outside any handler, so a string that is not a date raises
  \<^verbatim>\<open>ValueError\<close>.
\<close>

theorem mask_email_empty_local_part_raises:
  "mask_email (Some ''@domain.com'') = Inl IndexError \<and>
   check_retention_expired now (Date_string ''not-a-date'') = Inl ValueError"
  by (simp add: mask_email_def check_retention_expired_def strptime_ymd_def is_digit_def)







text \<open>
  C6. The spec has \<^verbatim>\<open>hash_password\<close> fail on the empty password. The function has no check
  of its argument: it hands the empty byte string to \<^verbatim>\<open>bcrypt.hashpw\<close>, and whenever the
  library returns a hash for it (of characters below 128), \<^verbatim>\<open>hash_password\<close> returns that
  hash as a string.
\<close>

theorem hash_password_empty_returns_hash:
  assumes "hashpw B [] (gensalt B 12 entropy) = Inr h" and "ascii h"
  shows "\<exists>s. hash_password B entropy [] = Inr s \<and> utf8_encode_str s = Inr h"
proof -
  have "utf8_encode_str [] = Inr []" by (simp add: utf8_encode_str_def)
  from hash_password_ascii [OF this assms] show ?thesis by blast
qed

theorem hash_password_empty_returns_hash_witness:
  "hashpw sample_bcrypt [] (gensalt sample_bcrypt 12 [1, 2]) = Inr (utf8_encode ''0102$c3'') \<and>
   ascii (utf8_encode ''0102$c3'') \<and>
   (\<exists>s. hash_password sample_bcrypt [1, 2] [] = Inr s \<and>
        utf8_encode_str s = Inr (utf8_encode ''0102$c3''))"
proof -
  have a1: "hashpw sample_bcrypt [] (gensalt sample_bcrypt 12 [1, 2])
              = Inr (utf8_encode ''0102$c3'')"
    by (simp add: sample_eval)
  have a2: "ascii (utf8_encode ''0102$c3'')" by (simp add: sample_eval)
  from a1 a2 hash_password_empty_returns_hash [OF a1 a2] show ?thesis by blast
qed

theorem hash_password_empty_not_rejected:
  "hash_password sample_bcrypt [1, 2] [] = Inr (str ''0102$c3'')"
  by (simp add: sample_eval)

text \<open>
  C7. Whenever the cipher rejects a non-empty ciphertext (it raises, as Fernet does with
  \<^verbatim>\<open>InvalidToken\<close> for a malformed token, a token made under another key or a failed
  integrity check), \<^verbatim>\<open>decrypt\<close> returns \<^verbatim>\<open>None\<close> and prints the decryption error; for the
  empty string and for \<^verbatim>\<open>None\<close> it returns \<^verbatim>\<open>None\<close> and prints nothing. A ciphertext that
  has no encoding (it holds a surrogate) is answered like a rejected one. No exception
  leaves the function: its result type has no error.
\<close>

theorem decrypt_failure_returns_None:
  "(c \<noteq> [] \<and> utf8_encode_str c = Inr token \<and> fernet_decrypt F (key self) token = Inl e \<longrightarrow>
      decrypt F self (Some c) = (None, [Decryption_error e])) \<and>
   (c \<noteq> [] \<and> utf8_encode_str c = Inl e \<longrightarrow>
      decrypt F self (Some c) = (None, [Decryption_error e])) \<and>
   decrypt F self (Some []) = (None, []) \<and>
   decrypt F self None = (None, [])"
  by (simp add: decrypt_def)

theorem decrypt_failure_returns_None_witness:
  "decrypt sample_fernet \<lparr>key = utf8_encode ''k1''\<rparr> (Some (str ''not-a-token''))
     = (None, [Decryption_error InvalidToken]) \<and>
   encrypt sample_fernet \<lparr>key = utf8_encode ''k1''\<rparr> (0, [])
     (Some (str ''Sensitive Patient Data''))
     = Inr (Some (str ''9ccff9f2eff5e8f5eaf9bcccfde8f5f9f2e8bcd8fde8fd'')) \<and>
   decrypt sample_fernet \<lparr>key = utf8_encode ''k2''\<rparr>
     (Some (str ''9ccff9f2eff5e8f5eaf9bcccfde8f5f9f2e8bcd8fde8fd''))
     = (None, [Decryption_error InvalidToken])"
proof -
  let ?t = "''9ccff9f2eff5e8f5eaf9bcccfde8f5f9f2e8bcd8fde8fd''"
  have a1: "str ''not-a-token'' \<noteq> [] \<and>
        utf8_encode_str (str ''not-a-token'') = Inr (utf8_encode ''not-a-token'') \<and>
        fernet_decrypt sample_fernet (key \<lparr>key = utf8_encode ''k1''\<rparr>)
          (utf8_encode ''not-a-token'') = Inl InvalidToken"
    by (simp add: sample_eval)
  have a2: "str ?t \<noteq> [] \<and> utf8_encode_str (str ?t) = Inr (utf8_encode ?t) \<and>
        fernet_decrypt sample_fernet (key \<lparr>key = utf8_encode ''k2''\<rparr>) (utf8_encode ?t)
          = Inl InvalidToken"
    by (simp add: sample_eval)
  have a3: "encrypt sample_fernet \<lparr>key = utf8_encode ''k1''\<rparr> (0, [])
          (Some (str ''Sensitive Patient Data'')) = Inr (Some (str ?t))"
    by (simp add: sample_eval)
  from a1 a2 a3
    decrypt_failure_returns_None [of "str ''not-a-token''" "utf8_encode ''not-a-token''"
      sample_fernet "\<lparr>key = utf8_encode ''k1''\<rparr>" InvalidToken]
    decrypt_failure_returns_None [of "str ?t" "utf8_encode ?t"
      sample_fernet "\<lparr>key = utf8_encode ''k2''\<rparr>" InvalidToken]
  show ?thesis by blast
qed




text \<open>
  C9. With role \<^verbatim>\<open>doctor\<close> every record is to come back with \<^verbatim>\<open>name\<close>, \<^verbatim>\<open>contact\<close> and
  \<^verbatim>\<open>email\<close> masked and the other fields unchanged. For a record whose \<^verbatim>\<open>email\<close> begins
  with \<^verbatim>\<open>@\<close> no record comes back: \<^verbatim>\<open>mask_email\<close> raises \<^verbatim>\<open>IndexError\<close> and
  \<^verbatim>\<open>mask_sensitive_data\<close> with it. (For every other record the lemma \<open>doctor_masking\<close>
  above shows the masking and the unchanged fields.)
\<close>

theorem doctor_masking_raises:
  "mask_sensitive_data
     [''name'' \<mapsto> Some ''John Doe'', ''email'' \<mapsto> Some ''@domain.com'',
      ''diagnosis'' \<mapsto> Some ''Influenza''] ''doctor'' = Inl IndexError"
  by (simp add: mask_sensitive_data_def mask_email_def)

text \<open>
  C10. For every record and every role other than \<^verbatim>\<open>admin\<close>, \<^verbatim>\<open>doctor\<close> and
  \<^verbatim>\<open>receptionist\<close>, \<^verbatim>\<open>mask_sensitive_data\<close> returns the record with every field unchanged.
\<close>

theorem unknown_role_unmasked:
  "role \<notin> {''admin'', ''doctor'', ''receptionist''} \<Longrightarrow> mask_sensitive_data r role = Inr r"
  by (simp add: mask_sensitive_data_def)

theorem unknown_role_unmasked_witness:
  "''nurse'' \<notin> {''admin'', ''doctor'', ''receptionist''} \<and>
   mask_sensitive_data [''name'' \<mapsto> Some ''John Doe'', ''email'' \<mapsto> Some ''@domain.com'']
     ''nurse'' = Inr [''name'' \<mapsto> Some ''John Doe'', ''email'' \<mapsto> Some ''@domain.com''] \<and>
   mask_sensitive_data [''diagnosis'' \<mapsto> Some ''Influenza''] [] =
     Inr [''diagnosis'' \<mapsto> Some ''Influenza'']"
  using unknown_role_unmasked
      [of "''nurse''" "[''name'' \<mapsto> Some ''John Doe'', ''email'' \<mapsto> Some ''@domain.com'']"]
    unknown_role_unmasked [of "[]" "[''diagnosis'' \<mapsto> Some ''Influenza'']"]
  by simp

end
